theory Spec2Isabelle
  imports Complex_Main
begin

section \<open>Errors and results\<close>

text \<open>
  The octagon module of Lyra (src/abstract_domains/numerical/octagon.py) is Python: every
  call may raise. An exception is a value of \<open>error\<close>, a computation that may raise returns
  \<open>error + 'a\<close> (\<open>Inl\<close> the exception), and a method that mutates its receiver takes the
  receiver and returns the outcome together with the receiver as it is when the method
  returns or raises.
\<close>

datatype error = TypeError | ValueError | KeyError | IndexError | NotImplementedError

type_synonym 'a result = "error + 'a"

definition rbind :: "'a result \<Rightarrow> ('a \<Rightarrow> 'b result) \<Rightarrow> 'b result" where
  "rbind m f = (case m of Inl e \<Rightarrow> Inl e | Inr a \<Rightarrow> f a)"

type_synonym ('s, 'a) st = "'s \<Rightarrow> 'a result \<times> 's"

definition sreturn :: "'a \<Rightarrow> ('s, 'a) st" where
  "sreturn a = (\<lambda>s. (Inr a, s))"

definition sraise :: "error \<Rightarrow> ('s, 'a) st" where
  "sraise e = (\<lambda>s. (Inl e, s))"

definition slift :: "'a result \<Rightarrow> ('s, 'a) st" where
  "slift r = (\<lambda>s. (r, s))"

definition sbind :: "('s, 'a) st \<Rightarrow> ('a \<Rightarrow> ('s, 'b) st) \<Rightarrow> ('s, 'b) st" where
  "sbind m f = (\<lambda>s. case m s of (Inl e, s') \<Rightarrow> (Inl e, s') | (Inr a, s') \<Rightarrow> f a s')"

section \<open>Bounds\<close>

text \<open>
  A bound is a Python number: an integer, or a float among which \<open>inf\<close>, \<open>-inf\<close> and
  \<open>nan\<close> (\<open>inf + -inf\<close>). Finite numbers are exact rationals here, so the rounding of
  a true division of a large integer is not modelled. Comparisons with \<open>nan\<close> are false.
\<close>

datatype bound = Fin rat | PInf | NInf | NaN

fun ble :: "bound \<Rightarrow> bound \<Rightarrow> bool" where
  "ble NaN _ = False"
| "ble _ NaN = False"
| "ble NInf _ = True"
| "ble _ PInf = True"
| "ble (Fin a) (Fin b) = (a \<le> b)"
| "ble _ _ = False"

definition bge :: "bound \<Rightarrow> bound \<Rightarrow> bool" where
  "bge a b = ble b a"

definition blt :: "bound \<Rightarrow> bound \<Rightarrow> bool" where
  "blt a b = (ble a b \<and> a \<noteq> b)"

definition isinf :: "bound \<Rightarrow> bool" where
  "isinf b = (b = PInf \<or> b = NInf)"

fun badd :: "bound \<Rightarrow> bound \<Rightarrow> bound" where
  "badd NaN _ = NaN"
| "badd _ NaN = NaN"
| "badd (Fin a) (Fin b) = Fin (a + b)"
| "badd PInf NInf = NaN"
| "badd NInf PInf = NaN"
| "badd PInf _ = PInf"
| "badd _ PInf = PInf"
| "badd NInf _ = NInf"
| "badd _ NInf = NInf"

fun bneg :: "bound \<Rightarrow> bound" where
  "bneg (Fin a) = Fin (- a)"
| "bneg PInf = NInf"
| "bneg NInf = PInf"
| "bneg NaN = NaN"

text \<open>\<open>k * b\<close> for an integer literal \<open>k\<close> that is not zero (\<open>2\<close> and \<open>-2\<close> in the source).\<close>

fun btimes :: "int \<Rightarrow> bound \<Rightarrow> bound" where
  "btimes k (Fin a) = Fin (of_int k * a)"
| "btimes k PInf = (if 0 < k then PInf else if k < 0 then NInf else NaN)"
| "btimes k NInf = (if 0 < k then NInf else if k < 0 then PInf else NaN)"
| "btimes k NaN = NaN"

text \<open>\<open>b / 2\<close>, Python's true division.\<close>

fun bhalf :: "bound \<Rightarrow> bound" where
  "bhalf (Fin a) = Fin (a / 2)"
| "bhalf b = b"

text \<open>
  \<open>b[i]\<close> on a number: Python numbers are not subscriptable, the subscript raises
  \<open>TypeError\<close>.
\<close>

definition bound_subscript :: "bound \<Rightarrow> nat \<Rightarrow> bound result" where
  "bound_subscript b i = Inl TypeError"

section \<open>The difference-bound matrix\<close>

text \<open>
  Modelled from the spec: the class \<open>IntegerCDBM\<close> (abstract_domains/numerical/dbm.py) is
  not among the sources. The spec (sections 2 and 4.1) gives a square matrix of
  \<open>size \<times> size\<close> bounds, read and written by \<open>(row, col)\<close> with valid indices in
  \<open>[0, size)\<close>, \<open>keys/values/items\<close> enumerating all positions, \<open>intersection\<close> the
  entrywise minimum, \<open>union\<close> the entrywise maximum and \<open>zip\<close> the entrywise application
  of a binary function, all in place on the receiver. An index outside \<open>[0, size)\<close> is an
  \<open>IndexError\<close>. The entries of a fresh matrix are not fixed by the spec and are a
  parameter of the constructor. The closure algorithm and what the entrywise operations
  do with two matrices of unequal size, on which the spec is silent, are parameters of
  the model (\<open>dbm_close\<close> and \<open>dbm_zip_unequal\<close> below).
\<close>

record cdbm =
  dsize :: nat
  cells :: "nat \<Rightarrow> nat \<Rightarrow> bound"

definition IntegerCDBM :: "(nat \<Rightarrow> nat \<Rightarrow> bound) \<Rightarrow> nat \<Rightarrow> cdbm" where
  "IntegerCDBM init n = \<lparr>dsize = n, cells = init\<rparr>"

definition dbm_get :: "cdbm \<Rightarrow> nat \<times> nat \<Rightarrow> bound result" where
  "dbm_get d k = (case k of (i, j) \<Rightarrow>
     if i < dsize d \<and> j < dsize d then Inr (cells d i j) else Inl IndexError)"

definition dbm_set :: "cdbm \<Rightarrow> nat \<times> nat \<Rightarrow> bound \<Rightarrow> cdbm result" where
  "dbm_set d k v = (case k of (i, j) \<Rightarrow>
     if i < dsize d \<and> j < dsize d
     then Inr (d\<lparr>cells := (cells d)(i := (cells d i)(j := v))\<rparr>)
     else Inl IndexError)"

definition dbm_keys :: "cdbm \<Rightarrow> (nat \<times> nat) list" where
  "dbm_keys d = List.product [0..<dsize d] [0..<dsize d]"

definition dbm_values :: "cdbm \<Rightarrow> bound list" where
  "dbm_values d = map (\<lambda>(i, j). cells d i j) (dbm_keys d)"

definition dbm_items :: "cdbm \<Rightarrow> ((nat \<times> nat) \<times> bound) list" where
  "dbm_items d = map (\<lambda>(i, j). ((i, j), cells d i j)) (dbm_keys d)"

section \<open>Variables, signs and the collaborators outside the sources\<close>

text \<open>
  \<open>VariableIdentifier(typ, name)\<close> and the sign enumeration
  \<open>Sign = UnaryArithmeticOperation.Operator\<close> with \<open>PLUS = Sign.Add\<close> and
  \<open>MINUS = Sign.Sub\<close> come from core/expressions.py, which is not among the sources.
\<close>

datatype pytype = Int_t | Float_t | Bool_t | Str_t

datatype variable = VariableIdentifier (var_typ: pytype) (var_name: string)

datatype sign = PLUS | MINUS

text \<open>
  Modelled from the spec: the expression classes of core/expressions.py, not among the
  sources. The octagon code distinguishes literals, variable identifiers, inputs, binary
  and unary arithmetic operations; \<open>OtherExpression\<close> stands for every other kind of
  expression, for which a visitor has no method of its own.
\<close>

datatype binary_operator = Add | Sub | Mult | Div

datatype expression =
    Literal pytype string
  | Var variable
  | Input pytype
  | BinaryArithmeticOperation pytype expression binary_operator expression
  | UnaryArithmeticOperation pytype sign expression
  | OtherExpression string

text \<open>
  Modelled from the spec: \<open>IntervalLattice\<close> (abstract_domains/numerical/interval.py), not
  among the sources: a lower and an upper bound, \<open>top()\<close> the unbounded interval and
  \<open>negate()\<close> the negation of an interval (spec, sections 4.3 and 6).
\<close>

record interval =
  lower :: bound
  upper :: bound

definition interval_top :: interval where
  "interval_top = \<lparr>lower = NInf, upper = PInf\<rparr>"

definition negate :: "interval \<Rightarrow> interval" where
  "negate iv = \<lparr>lower = bneg (upper iv), upper = bneg (lower iv)\<rparr>"

text \<open>
  What the octagon code asks of classes that are not among the sources is a parameter of
  the model:
  \<^item> \<open>var_add_int v n\<close> and \<open>var_add_sign v s\<close>: the value of \<open>v + n\<close> for a variable
    identifier \<open>v\<close> and an integer or a sign (\<open>VariableIdentifier.__add__\<close>), as far as it
    is a key of the variable dictionary;
  \<^item> \<open>sign_times s t\<close>: \<open>Sign(s * t)\<close>;
  \<^item> \<open>dbm_close d\<close>: \<open>d.close()\<close>, the closure of a matrix;
  \<^item> \<open>dbm_zip_unequal d other f\<close>: \<open>d.zip(other, f)\<close> for two matrices of unequal size;
  \<^item> \<open>evaluate_expression e\<close>: \<open>IntervalLattice.evaluate_expression(e)\<close>, the interval of
    an expression or an exception.
\<close>

record externals =
  var_add_int :: "variable \<Rightarrow> int \<Rightarrow> variable result"
  var_add_sign :: "variable \<Rightarrow> sign \<Rightarrow> variable result"
  sign_times :: "sign \<Rightarrow> sign \<Rightarrow> sign result"
  dbm_close :: "cdbm \<Rightarrow> cdbm result"
  dbm_zip_unequal :: "cdbm \<Rightarrow> cdbm \<Rightarrow> (bound \<Rightarrow> bound \<Rightarrow> bound) \<Rightarrow> cdbm result"
  evaluate_expression :: "expression \<Rightarrow> interval result"

text \<open>
  Modelled from the spec: the entrywise operations of the matrix (spec, section 4.1). On
  two matrices of the same size \<open>zip\<close> applies the function at every position of the
  receiver; on two matrices of unequal size it does what \<open>dbm_zip_unequal\<close> says.
\<close>

definition dbm_zip ::
  "externals \<Rightarrow> cdbm \<Rightarrow> cdbm \<Rightarrow> (bound \<Rightarrow> bound \<Rightarrow> bound) \<Rightarrow> cdbm result" where
  "dbm_zip ext d other f =
     (if dsize d = dsize other
      then Inr (d\<lparr>cells := (\<lambda>i j. if i < dsize d \<and> j < dsize d
                                   then f (cells d i j) (cells other i j)
                                   else cells d i j)\<rparr>)
      else dbm_zip_unequal ext d other f)"

definition bmin :: "bound \<Rightarrow> bound \<Rightarrow> bound" where
  "bmin a b = (if blt b a then b else a)"

definition bmax :: "bound \<Rightarrow> bound \<Rightarrow> bound" where
  "bmax a b = (if blt a b then b else a)"

definition dbm_intersection :: "externals \<Rightarrow> cdbm \<Rightarrow> cdbm \<Rightarrow> cdbm result" where
  "dbm_intersection ext d other = dbm_zip ext d other bmin"

definition dbm_union :: "externals \<Rightarrow> cdbm \<Rightarrow> cdbm \<Rightarrow> cdbm result" where
  "dbm_union ext d other = dbm_zip ext d other bmax"

section \<open>The octagon lattice\<close>

text \<open>
  \<^verbatim>\<open>def _index_shift(self, sign): return 1 if sign == MINUS else 0\<close> is a function of
  the module with two parameters. A call binds its positional arguments in order; a call
  with another number of arguments raises \<open>TypeError\<close>.
\<close>

fun index_shift :: "sign list \<Rightarrow> int result" where
  "index_shift [self, sign] = Inr (if sign = MINUS then 1 else 0)"
| "index_shift _ = Inl TypeError"

record octagon =
  variables_list :: "variable list"
  var_to_index :: "variable \<rightharpoonup> nat"
  index_to_var :: "nat \<rightharpoonup> variable"
  dbm :: cdbm

text \<open>The loop of \<open>OctagonLattice.__init__\<close> that fills the two dictionaries.\<close>

fun init_indices ::
  "variable list \<Rightarrow> nat \<Rightarrow> (variable \<rightharpoonup> nat) \<times> (nat \<rightharpoonup> variable)
     \<Rightarrow> (variable \<rightharpoonup> nat) \<times> (nat \<rightharpoonup> variable)" where
  "init_indices [] index maps = maps"
| "init_indices (var # rest) index maps =
     init_indices rest (index + 2)
       ((fst maps)(var \<mapsto> index), (snd maps)(index \<mapsto> var, index + 1 \<mapsto> var))"

definition OctagonLattice :: "(nat \<Rightarrow> nat \<Rightarrow> bound) \<Rightarrow> variable list \<Rightarrow> octagon" where
  "OctagonLattice init variables =
     (let maps = init_indices variables 0 (Map.empty, Map.empty) in
      \<lparr>variables_list = variables, var_to_index = fst maps, index_to_var = snd maps,
       dbm = IntegerCDBM init (length variables * 2)\<rparr>)"

text \<open>
  An index tuple, as the annotations of \<open>__getitem__\<close> and \<open>__setitem__\<close> give it: two
  or four elements; \<open>IndexOther n\<close> stands for a tuple of another length \<open>n\<close>.
\<close>

datatype index =
    Index2 variable sign
  | Index4 variable sign variable sign
  | IndexOther nat

fun len :: "index \<Rightarrow> nat" where
  "len (Index2 _ _) = 2"
| "len (Index4 _ _ _ _) = 4"
| "len (IndexOther n) = n"

text \<open>
  The expression \<open>self._var_to_index[var + _index_shift(sign)]\<close> of lines 48 and 57: the
  call, whose only argument is the sign, is evaluated before the addition, the addition
  before the dictionary lookup.
\<close>

definition index_of :: "externals \<Rightarrow> octagon \<Rightarrow> variable \<Rightarrow> sign \<Rightarrow> nat result" where
  "index_of ext self var sign =
     rbind (index_shift [sign]) (\<lambda>shift.
     rbind (var_add_int ext var shift) (\<lambda>key.
     case var_to_index self key of None \<Rightarrow> Inl KeyError | Some i \<Rightarrow> Inr i))"

fun getitem :: "externals \<Rightarrow> octagon \<Rightarrow> index \<Rightarrow> bound result" where
  "getitem ext self (Index4 var1 sign1 var2 sign2) =
     rbind (index_of ext self var1 sign1) (\<lambda>i.
     rbind (index_of ext self var2 sign2) (\<lambda>j.
     dbm_get (dbm self) (i, j)))"
| "getitem ext self _ = Inl ValueError"

definition dbm_write :: "nat \<times> nat \<Rightarrow> bound \<Rightarrow> (octagon, unit) st" where
  "dbm_write k v = (\<lambda>self. case dbm_set (dbm self) k v of
       Inl e \<Rightarrow> (Inl e, self)
     | Inr d \<Rightarrow> (Inr (), self\<lparr>dbm := d\<rparr>))"

text \<open>The loop \<open>for i in range(self.dbm.size)\<close> of the two-element branch.\<close>

fun setitem_loop :: "nat list \<Rightarrow> nat \<Rightarrow> bound \<Rightarrow> (octagon, unit) st" where
  "setitem_loop [] k v = sreturn ()"
| "setitem_loop (i # rest) k v =
     sbind (if i \<noteq> k
            then sbind (dbm_write (i, k) v) (\<lambda>_. dbm_write (k, i) v)
            else sreturn ())
       (\<lambda>_. setitem_loop rest k v)"

text \<open>
  \<open>__setitem__\<close>: the first \<open>if\<close> (length four) has no \<open>else\<close>; the second \<open>if\<close>
  (length two) carries the \<open>else\<close> that raises \<open>ValueError\<close>.
\<close>

definition setitem :: "externals \<Rightarrow> index \<Rightarrow> bound \<Rightarrow> (octagon, unit) st" where
  "setitem ext index v =
     sbind (case index of
              Index4 var1 sign1 var2 sign2 \<Rightarrow>
                (\<lambda>self.
                  sbind (slift (rbind (index_of ext self var1 sign1) (\<lambda>i.
                                rbind (index_of ext self var2 sign2) (\<lambda>j. Inr (i, j)))))
                    (\<lambda>(i, j). if i \<noteq> j then dbm_write (i, j) v else sreturn ()) self)
            | _ \<Rightarrow> sreturn ())
       (\<lambda>_. case index of
              Index2 var sign \<Rightarrow>
                (\<lambda>self.
                  sbind (slift (rbind (var_add_sign ext var sign) (\<lambda>key.
                                case var_to_index self key of
                                  None \<Rightarrow> Inl KeyError | Some k \<Rightarrow> Inr k)))
                    (\<lambda>k. setitem_loop [0..<dsize (dbm self)] k v) self)
            | _ \<Rightarrow> sraise ValueError)"

text \<open>\<open>top\<close>: every key of the matrix is set to \<open>inf\<close>.\<close>

fun top_loop :: "(nat \<times> nat) list \<Rightarrow> (octagon, unit) st" where
  "top_loop [] = sreturn ()"
| "top_loop (key # rest) = sbind (dbm_write key PInf) (\<lambda>_. top_loop rest)"

definition top_op :: "(octagon, unit) st" where
  "top_op = (\<lambda>self. top_loop (dbm_keys (dbm self)) self)"

text \<open>
  \<open>is_top\<close>: \<^verbatim>\<open>all([isinf(b) for k, b in self.dbm.items() if b[0] != b[1]])\<close>. The
  filter subscripts \<open>b\<close>, the bound of the item, not its key \<open>k\<close>.
\<close>

fun is_top_scan :: "((nat \<times> nat) \<times> bound) list \<Rightarrow> bool list result" where
  "is_top_scan [] = Inr []"
| "is_top_scan ((k, b) # rest) =
     rbind (bound_subscript b 0) (\<lambda>b0.
     rbind (bound_subscript b 1) (\<lambda>b1.
     if b0 \<noteq> b1
     then rbind (is_top_scan rest) (\<lambda>tl. Inr (isinf b # tl))
     else is_top_scan rest))"

definition is_top :: "octagon \<Rightarrow> bool result" where
  "is_top self = rbind (is_top_scan (dbm_items (dbm self))) (\<lambda>bs. Inr (list_all id bs))"

definition less_equal :: "octagon \<Rightarrow> octagon \<Rightarrow> bool result" where
  "less_equal self other =
     (if dsize (dbm self) \<noteq> dsize (dbm other) then Inl ValueError
      else Inr (list_all (\<lambda>(x, y). ble x y)
                  (zip (dbm_values (dbm self)) (dbm_values (dbm other)))))"

definition meet :: "externals \<Rightarrow> octagon \<Rightarrow> (octagon, unit) st" where
  "meet ext other = (\<lambda>self.
     if dsize (dbm self) \<noteq> dsize (dbm other) then (Inl ValueError, self)
     else (case dbm_intersection ext (dbm self) (dbm other) of
             Inl e \<Rightarrow> (Inl e, self)
           | Inr d \<Rightarrow> (Inr (), self\<lparr>dbm := d\<rparr>)))"

text \<open>\<open>_join\<close> closes both operands: its state is the pair \<open>(self, other)\<close>.\<close>

definition join :: "externals \<Rightarrow> (octagon \<times> octagon, unit) st" where
  "join ext = (\<lambda>(self, other).
     if dsize (dbm self) \<noteq> dsize (dbm other) then (Inl ValueError, (self, other))
     else (case dbm_close ext (dbm self) of
             Inl e \<Rightarrow> (Inl e, (self, other))
           | Inr d1 \<Rightarrow>
               (case dbm_close ext (dbm other) of
                  Inl e \<Rightarrow> (Inl e, (self\<lparr>dbm := d1\<rparr>, other))
                | Inr d2 \<Rightarrow>
                    (case dbm_union ext d1 d2 of
                       Inl e \<Rightarrow> (Inl e, (self\<lparr>dbm := d1\<rparr>, other\<lparr>dbm := d2\<rparr>))
                     | Inr d \<Rightarrow> (Inr (), (self\<lparr>dbm := d\<rparr>, other\<lparr>dbm := d2\<rparr>))))))"

definition widen_entry :: "bound \<Rightarrow> bound \<Rightarrow> bound" where
  "widen_entry a b = (if bge a b then a else PInf)"

definition widening :: "externals \<Rightarrow> octagon \<Rightarrow> (octagon, unit) st" where
  "widening ext other = (\<lambda>self.
     case dbm_zip ext (dbm self) (dbm other) widen_entry of
       Inl e \<Rightarrow> (Inl e, self)
     | Inr d \<Rightarrow> (Inr (), self\<lparr>dbm := d\<rparr>))"

definition forget :: "externals \<Rightarrow> variable \<Rightarrow> (octagon, unit) st" where
  "forget ext var =
     sbind (\<lambda>self. case dbm_close ext (dbm self) of
                     Inl e \<Rightarrow> (Inl e, self)
                   | Inr d \<Rightarrow> (Inr (), self\<lparr>dbm := d\<rparr>))
       (\<lambda>_. sbind (setitem ext (Index2 var PLUS) PInf)
       (\<lambda>_. setitem ext (Index2 var MINUS) PInf))"

definition set_lb :: "externals \<Rightarrow> variable \<Rightarrow> bound \<Rightarrow> (octagon, unit) st" where
  "set_lb ext var constant = setitem ext (Index4 var MINUS var PLUS) (btimes 2 constant)"

definition get_lb :: "externals \<Rightarrow> octagon \<Rightarrow> variable \<Rightarrow> bound result" where
  "get_lb ext self var =
     rbind (getitem ext self (Index4 var PLUS var MINUS)) (\<lambda>b. Inr (bhalf b))"

definition set_ub :: "externals \<Rightarrow> variable \<Rightarrow> bound \<Rightarrow> (octagon, unit) st" where
  "set_ub ext var constant = setitem ext (Index4 var PLUS var MINUS) (btimes (- 2) constant)"

definition get_ub :: "externals \<Rightarrow> octagon \<Rightarrow> variable \<Rightarrow> bound result" where
  "get_ub ext self var =
     rbind (getitem ext self (Index4 var MINUS var PLUS)) (\<lambda>b. Inr (bhalf b))"

definition set_octagonal_constraint ::
  "externals \<Rightarrow> sign \<Rightarrow> variable \<Rightarrow> sign \<Rightarrow> variable \<Rightarrow> bound \<Rightarrow> (octagon, unit) st" where
  "set_octagonal_constraint ext sign1 var1 sign2 var2 constant =
     sbind (slift (sign_times ext sign1 MINUS))
       (\<lambda>s. setitem ext (Index4 var1 s var2 sign2) constant)"

text \<open>
  \<open>set_interval\<close> calls \<open>self.set_lb(interval.lower)\<close> and \<open>self.set_ub(interval.upper)\<close>:
  one positional argument for the two parameters \<open>var\<close> and \<open>constant\<close>. The calls are
  modelled on argument lists; the only lists the source passes that do not fit the
  parameters are these one-element lists.
\<close>

datatype arg = AVar variable | ABound bound

fun call_set_lb :: "externals \<Rightarrow> arg list \<Rightarrow> (octagon, unit) st" where
  "call_set_lb ext [AVar var, ABound constant] = set_lb ext var constant"
| "call_set_lb ext _ = sraise TypeError"

fun call_set_ub :: "externals \<Rightarrow> arg list \<Rightarrow> (octagon, unit) st" where
  "call_set_ub ext [AVar var, ABound constant] = set_ub ext var constant"
| "call_set_ub ext _ = sraise TypeError"

datatype interval_arg = OfInterval interval | OfInt bound

definition set_interval :: "externals \<Rightarrow> variable \<Rightarrow> interval_arg \<Rightarrow> (octagon, unit) st" where
  "set_interval ext var arg =
     (case arg of
        OfInterval iv \<Rightarrow>
          sbind (call_set_lb ext [ABound (lower iv)]) (\<lambda>_. call_set_ub ext [ABound (upper iv)])
      | OfInt n \<Rightarrow>
          sbind (call_set_lb ext [ABound n]) (\<lambda>_. call_set_ub ext [ABound n]))"

section \<open>The single-variable linear form\<close>

text \<open>
  \<open>SingleVarLinearForm\<close>: the fields \<open>_var_sign\<close>, \<open>_var\<close> and \<open>_interval\<close>; the setters
  of \<open>var\<close> and \<open>interval\<close> raise \<open>ValueError\<close> when the field already holds an object.
  A field that holds a variable identifier or an interval is true in a condition, the
  initial \<open>None\<close> is false.
\<close>

record form =
  form_var_sign :: sign
  form_var :: "variable option"
  form_interval :: "interval option"

definition set_var_sign :: "sign \<Rightarrow> (form, unit) st" where
  "set_var_sign v = (\<lambda>self. (Inr (), self\<lparr>form_var_sign := v\<rparr>))"

definition set_var :: "variable \<Rightarrow> (form, unit) st" where
  "set_var v = (\<lambda>self. case form_var self of
       Some _ \<Rightarrow> (Inl ValueError, self)
     | None \<Rightarrow> (Inr (), self\<lparr>form_var := Some v\<rparr>))"

definition set_form_interval :: "interval \<Rightarrow> (form, unit) st" where
  "set_form_interval v = (\<lambda>self. case form_interval self of
       Some _ \<Rightarrow> (Inl ValueError, self)
     | None \<Rightarrow> (Inr (), self\<lparr>form_interval := Some v\<rparr>))"

text \<open>\<open>self.interval.negate()\<close>, in place on the interval the form holds.\<close>

definition negate_form_interval :: "(form, unit) st" where
  "negate_form_interval = (\<lambda>self. case form_interval self of
       None \<Rightarrow> (Inl TypeError, self)
     | Some iv \<Rightarrow> (Inr (), self\<lparr>form_interval := Some (negate iv)\<rparr>))"

text \<open>\<open>try: m except ValueError: h\<close>: the handler runs on the state the body left.\<close>

definition except_ValueError :: "('s, 'a) st \<Rightarrow> ('s, 'a) st \<Rightarrow> ('s, 'a) st" where
  "except_ValueError m h = (\<lambda>s. case m s of
       (Inl ValueError, s') \<Rightarrow> h s'
     | r \<Rightarrow> r)"

fun binary_to_unary_operator :: "binary_operator \<Rightarrow> sign result" where
  "binary_to_unary_operator Add = Inr PLUS"
| "binary_to_unary_operator Sub = Inr MINUS"
| "binary_to_unary_operator _ = Inl ValueError"

definition visit_Literal :: "externals \<Rightarrow> expression \<Rightarrow> (form, unit) st" where
  "visit_Literal ext expr = sbind (slift (evaluate_expression ext expr)) set_form_interval"

definition visit_VariableIdentifier :: "variable \<Rightarrow> (form, unit) st" where
  "visit_VariableIdentifier v = set_var v"

definition visit_Input :: "(form, unit) st" where
  "visit_Input = set_form_interval interval_top"

definition visit_BinaryArithmeticOperation ::
  "externals \<Rightarrow> expression \<Rightarrow> binary_operator \<Rightarrow> expression \<Rightarrow> (form, unit) st" where
  "visit_BinaryArithmeticOperation ext left operator right =
     sbind
       (except_ValueError
          (sbind (slift (evaluate_expression ext left)) set_form_interval)
          (case left of
             Var v \<Rightarrow> set_var v
           | UnaryArithmeticOperation t uop (Var v) \<Rightarrow>
               sbind (set_var v) (\<lambda>_. set_var_sign uop)
           | _ \<Rightarrow> sraise ValueError))
       (\<lambda>_.
        except_ValueError
          (sbind (slift (evaluate_expression ext right)) (\<lambda>iv.
           sbind (set_form_interval iv) (\<lambda>_.
           sbind (slift (binary_to_unary_operator operator)) (\<lambda>u.
           if u = MINUS then negate_form_interval else sreturn ()))))
          (case right of
             Var v \<Rightarrow>
               sbind (set_var v) (\<lambda>_.
               sbind (slift (binary_to_unary_operator operator)) set_var_sign)
           | UnaryArithmeticOperation t uop (Var v) \<Rightarrow>
               sbind (set_var v) (\<lambda>_.
               sbind (slift (binary_to_unary_operator operator)) (\<lambda>u.
               sbind (slift (sign_times ext u uop)) set_var_sign))
           | _ \<Rightarrow> sraise ValueError))"

definition visit_UnaryArithmeticOperation ::
  "externals \<Rightarrow> expression \<Rightarrow> sign \<Rightarrow> expression \<Rightarrow> (form, unit) st" where
  "visit_UnaryArithmeticOperation ext expr operator operand =
     except_ValueError
       (sbind (slift (evaluate_expression ext expr)) set_form_interval)
       (case operand of
          Var v \<Rightarrow> sbind (set_var v) (\<lambda>_. set_var_sign operator)
        | _ \<Rightarrow> sraise ValueError)"

definition generic_visit :: "expression \<Rightarrow> (form, unit) st" where
  "generic_visit expr = sraise ValueError"

text \<open>
  Modelled from the spec: \<open>ExpressionVisitor.visit\<close> (core/expressions_tools.py), not among
  the sources: it dispatches on the kind of the expression to the method \<open>visit_<Kind>\<close>
  and falls through to \<open>generic_visit\<close> for a kind without one (spec, sections 4.3 and 9).
\<close>

fun visit :: "externals \<Rightarrow> expression \<Rightarrow> (form, unit) st" where
  "visit ext (Literal t v) = visit_Literal ext (Literal t v)"
| "visit ext (Var v) = visit_VariableIdentifier v"
| "visit ext (Input t) = visit_Input"
| "visit ext (BinaryArithmeticOperation t left operator right) =
     visit_BinaryArithmeticOperation ext left operator right"
| "visit ext (UnaryArithmeticOperation t operator operand) =
     visit_UnaryArithmeticOperation ext (UnaryArithmeticOperation t operator operand)
       operator operand"
| "visit ext (OtherExpression k) = generic_visit (OtherExpression k)"

definition SingleVarLinearForm :: "externals \<Rightarrow> expression \<Rightarrow> form result" where
  "SingleVarLinearForm ext expr =
     (case visit ext expr \<lparr>form_var_sign = PLUS, form_var = None, form_interval = None\<rparr> of
        (Inl e, _) \<Rightarrow> Inl e
      | (Inr _, self) \<Rightarrow> Inr self)"

section \<open>The octagon domain\<close>

text \<open>
  \<open>OctagonDomain._assign_variable\<close>. The state is the octagon; the method returns
  \<open>self\<close>. Only \<open>ValueError\<close> is caught by the \<open>try\<close>.
\<close>

definition assign_body :: "externals \<Rightarrow> variable \<Rightarrow> expression \<Rightarrow> (octagon, unit) st" where
  "assign_body ext left right =
     sbind (slift (SingleVarLinearForm ext right)) (\<lambda>form.
       case (form_var form, form_interval form) of
         (None, Some iv) \<Rightarrow>
           sbind (forget ext left) (\<lambda>_. set_interval ext left (OfInterval iv))
       | (Some v, Some iv) \<Rightarrow>
           if v = left then
             (case form_var_sign form of
                PLUS \<Rightarrow>
                  (\<lambda>self.
                    sbind (slift (rbind (get_lb ext self left) (\<lambda>lb.
                                  rbind (get_ub ext self left) (\<lambda>ub.
                                  Inr \<lparr>lower = badd lb (lower iv),
                                       upper = badd ub (upper iv)\<rparr>))))
                      (\<lambda>iv'. set_interval ext left (OfInterval iv')) self)
              | MINUS \<Rightarrow> sreturn ())
           else sreturn ()
       | _ \<Rightarrow> sreturn ())"

definition assign_variable :: "externals \<Rightarrow> expression \<Rightarrow> expression \<Rightarrow> (octagon, unit) st" where
  "assign_variable ext left right =
     (case left of
        Var v \<Rightarrow>
          if var_typ v \<noteq> Int_t then sraise ValueError
          else except_ValueError (assign_body ext v right) (sreturn ())
      | _ \<Rightarrow> sreturn ())"

text \<open>
  Modelled from the spec: the fixpoint driver is not among the sources; it iterates
  \<open>widening\<close> on the current octagon with the octagon of each further iteration (spec,
  sections 6 and 8). \<open>iterate_widening ext a others n\<close> is the octagon after \<open>n\<close> rounds
  from \<open>a\<close>, round \<open>k\<close> widening with \<open>others k\<close>.
\<close>

fun iterate_widening ::
  "externals \<Rightarrow> octagon \<Rightarrow> (nat \<Rightarrow> octagon) \<Rightarrow> nat \<Rightarrow> octagon result" where
  "iterate_widening ext a others 0 = Inr a"
| "iterate_widening ext a others (Suc n) =
     rbind (iterate_widening ext a others n) (\<lambda>self.
       case widening ext (others n) self of
         (Inl e, _) \<Rightarrow> Inl e
       | (Inr _, self') \<Rightarrow> Inr self')"

text \<open>
  Two notions for the statements about widening: the positions of a matrix that hold a
  bound other than \<open>inf\<close>, and the octagon \<open>_widening\<close> leaves when both operands have
  the same size (the entrywise rule \<open>a if a >= b else inf\<close> at every position).
\<close>

definition finite_positions :: "cdbm \<Rightarrow> (nat \<times> nat) set" where
  "finite_positions d = {(i, j). i < dsize d \<and> j < dsize d \<and> cells d i j \<noteq> PInf}"

definition widened :: "octagon \<Rightarrow> octagon \<Rightarrow> octagon" where
  "widened other self =
     self\<lparr>dbm := (dbm self)\<lparr>cells := (\<lambda>i j.
       if i < dsize (dbm self) \<and> j < dsize (dbm self)
       then widen_entry (cells (dbm self) i j) (cells (dbm other) i j)
       else cells (dbm self) i j)\<rparr>\<rparr>"

section \<open>Sample inputs\<close>

text \<open>
  Concrete inputs for the closed statements below: the integer variable \<open>x\<close>, octagons
  over \<open>[x]\<close> whose fresh matrices hold \<open>inf\<close>, \<open>0\<close> or \<open>-1\<close> everywhere, and sample
  collaborators: a variable identifier has no addition (\<open>TypeError\<close>), the product of
  two signs is the sign of the product, the closure leaves the matrix as it is, \<open>zip\<close>
  on unequal sizes raises \<open>ValueError\<close>, and the interval evaluator knows every literal
  as the given interval and fails with \<open>ValueError\<close> on any other expression.
\<close>

definition x :: variable where
  "x = VariableIdentifier Int_t ''x''"

definition all_inf :: "nat \<Rightarrow> nat \<Rightarrow> bound" where
  "all_inf = (\<lambda>i j. PInf)"

definition all_zero :: "nat \<Rightarrow> nat \<Rightarrow> bound" where
  "all_zero = (\<lambda>i j. Fin 0)"

definition octagon_x :: octagon where
  "octagon_x = OctagonLattice all_inf [x]"

definition octagon_x0 :: octagon where
  "octagon_x0 = OctagonLattice all_zero [x]"

definition all_minus_one :: "nat \<Rightarrow> nat \<Rightarrow> bound" where
  "all_minus_one = (\<lambda>i j. Fin (- 1))"

definition octagon_low :: octagon where
  "octagon_low = OctagonLattice all_minus_one [x]"

text \<open>A strictly tightening sequence over \<open>[x]\<close>: every bound of the \<open>k\<close>-th octagon is \<open>-k\<close>.\<close>

definition tightening_octagons :: "nat \<Rightarrow> octagon" where
  "tightening_octagons k = OctagonLattice (\<lambda>i j. Fin (- of_nat k)) [x]"

definition sample_externals :: "interval \<Rightarrow> externals" where
  "sample_externals iv =
     \<lparr>var_add_int = (\<lambda>v n. Inl TypeError),
      var_add_sign = (\<lambda>v s. Inl TypeError),
      sign_times = (\<lambda>s t. Inr (if s = t then PLUS else MINUS)),
      dbm_close = (\<lambda>d. Inr d),
      dbm_zip_unequal = (\<lambda>d other f. Inl ValueError),
      evaluate_expression = (\<lambda>e. case e of Literal t v \<Rightarrow> Inr iv | _ \<Rightarrow> Inl ValueError)\<rparr>"

section \<open>Index computation and the accessors\<close>

lemma index_of_raises: "index_of ext self var sign = Inl TypeError"
  by (simp add: index_of_def rbind_def)

lemma getitem4_raises: "getitem ext self (Index4 var1 sign1 var2 sign2) = Inl TypeError"
  by (simp add: index_of_raises rbind_def)

lemma setitem4_raises:
  "setitem ext (Index4 var1 sign1 var2 sign2) v self = (Inl TypeError, self)"
  by (simp add: setitem_def sbind_def slift_def index_of_raises rbind_def)

lemma get_lb_raises: "get_lb ext self var = Inl TypeError"
  by (simp add: get_lb_def index_of_raises rbind_def)

lemma get_ub_raises: "get_ub ext self var = Inl TypeError"
  by (simp add: get_ub_def index_of_raises rbind_def)

lemma set_lb_raises: "set_lb ext var c self = (Inl TypeError, self)"
  by (simp add: set_lb_def setitem4_raises)

lemma set_ub_raises: "set_ub ext var c self = (Inl TypeError, self)"
  by (simp add: set_ub_def setitem4_raises)

text \<open>
  C1 (round trip of the bound accessors). The code does not deliver it: \<open>set_lb\<close> and
  \<open>set_ub\<close> raise \<open>TypeError\<close> on every octagon, variable and constant and leave the
  matrix as it was, and \<open>get_lb\<close> and \<open>get_ub\<close> raise \<open>TypeError\<close> on the resulting
  state, so that no constant is ever returned.
\<close>

theorem set_bound_then_get_bound_raises:
  "set_lb ext v c self = (Inl TypeError, self)
   \<and> get_lb ext (snd (set_lb ext v c self)) v = Inl TypeError
   \<and> set_ub ext v c self = (Inl TypeError, self)
   \<and> get_ub ext (snd (set_ub ext v c self)) v = Inl TypeError"
  by (simp add: set_lb_raises set_ub_raises get_lb_raises get_ub_raises)

text \<open>
  C2 (\<open>__setitem__\<close> on a four-element index performs the off-diagonal write and then
  raises \<open>ValueError\<close> from the \<open>else\<close> of the second \<open>if\<close>; hence \<open>set_lb\<close>, \<open>set_ub\<close>
  and \<open>set_octagonal_constraint\<close> raise on every call). The code does not get that far:
  for every four-element index \<open>__setitem__\<close> raises \<open>TypeError\<close> while it computes the
  matrix indices, before the write and before the \<open>else\<close>, and leaves the octagon
  unchanged; so do \<open>set_lb\<close> and \<open>set_ub\<close>, and \<open>set_octagonal_constraint\<close> raises
  on every call.
\<close>

theorem setitem4_never_returns:
  "setitem ext (Index4 var1 sign1 var2 sign2) v self = (Inl TypeError, self)
   \<and> set_lb ext var1 c self = (Inl TypeError, self)
   \<and> set_ub ext var1 c self = (Inl TypeError, self)
   \<and> (\<exists>e. set_octagonal_constraint ext sign1 var1 sign2 var2 c self = (Inl e, self))"
  by (cases "sign_times ext sign1 MINUS")
     (simp_all add: setitem4_raises set_lb_raises set_ub_raises
        set_octagonal_constraint_def sbind_def slift_def)

section \<open>Top and the test for top\<close>

lemma dbm_write_in_range:
  "i < dsize (dbm s) \<Longrightarrow> j < dsize (dbm s) \<Longrightarrow>
   fst (dbm_write (i, j) v s) = Inr () \<and> dsize (dbm (snd (dbm_write (i, j) v s))) = dsize (dbm s)"
  by (simp add: dbm_write_def dbm_set_def)

lemma top_loop_returns:
  "\<forall>k \<in> set ks. fst k < dsize (dbm s) \<and> snd k < dsize (dbm s) \<Longrightarrow>
   fst (top_loop ks s) = Inr () \<and> dsize (dbm (snd (top_loop ks s))) = dsize (dbm s)"
proof (induction ks arbitrary: s)
  case Nil
  show ?case by (simp add: sreturn_def)
next
  case (Cons k ks)
  obtain i j where k: "k = (i, j)" by (cases k)
  from Cons.prems k have ij: "i < dsize (dbm s)" "j < dsize (dbm s)" by auto
  obtain s' where w: "dbm_write (i, j) PInf s = (Inr (), s')" and sz: "dsize (dbm s') = dsize (dbm s)"
    using dbm_write_in_range [OF ij, of PInf] by (cases "dbm_write (i, j) PInf s") auto
  from Cons.prems sz have "\<forall>k \<in> set ks. fst k < dsize (dbm s') \<and> snd k < dsize (dbm s')"
    by simp
  from Cons.IH [OF this] show ?case
    by (simp add: k sbind_def w sz)
qed

lemma top_op_returns:
  "fst (top_op s) = Inr () \<and> dsize (dbm (snd (top_op s))) = dsize (dbm s)"
  unfolding top_op_def by (rule top_loop_returns) (auto simp: dbm_keys_def)

lemma dbm_items_nonempty: "0 < dsize d \<Longrightarrow> \<exists>k b rest. dbm_items d = (k, b) # rest"
proof -
  assume "0 < dsize d"
  then have "[0..<dsize d] = 0 # [Suc 0..<dsize d]" by (simp add: upt_conv_Cons)
  then obtain r where "dbm_keys d = (0, 0) # r"
    by (simp add: dbm_keys_def)
  then show ?thesis by (simp add: dbm_items_def)
qed

lemma is_top_raises: "0 < dsize (dbm s) \<Longrightarrow> is_top s = Inl TypeError"
proof -
  assume "0 < dsize (dbm s)"
  then obtain k b rest where "dbm_items (dbm s) = (k, b) # rest"
    using dbm_items_nonempty by blast
  then show ?thesis by (simp add: is_top_def bound_subscript_def rbind_def)
qed

lemma OctagonLattice_dsize: "dsize (dbm (OctagonLattice init vs)) = length vs * 2"
  by (simp add: OctagonLattice_def IntegerCDBM_def Let_def)

text \<open>
  C4 (\<open>top()\<close> then \<open>is_top()\<close> is true; after a bound is set it is false). The code does
  not deliver it: on an octagon over at least one variable \<open>top()\<close> returns normally,
  but \<open>is_top()\<close> on the result raises \<open>TypeError\<close> (its filter subscripts the bound of
  the first item), and setting a bound on the result raises \<open>TypeError\<close> as well.
\<close>

theorem top_then_is_top_raises:
  "fst (top_op (OctagonLattice init (v # vs))) = Inr ()
   \<and> is_top (snd (top_op (OctagonLattice init (v # vs)))) = Inl TypeError
   \<and> fst (set_lb ext v c (snd (top_op (OctagonLattice init (v # vs))))) = Inl TypeError"
proof -
  have "0 < dsize (dbm (snd (top_op (OctagonLattice init (v # vs)))))"
    by (simp add: top_op_returns OctagonLattice_dsize)
  then show ?thesis
    by (simp add: top_op_returns is_top_raises set_lb_raises)
qed

section \<open>Forgetting a variable\<close>

text \<open>
  C9 (\<open>forget(v)\<close>, then unbounded \<open>get_lb(v)\<close> and \<open>get_ub(v)\<close>). The code does not
  deliver it: whatever \<open>forget\<close> does to the octagon, \<open>get_lb\<close> and \<open>get_ub\<close> on the
  state it leaves raise \<open>TypeError\<close> and yield no bound.
\<close>

theorem forget_then_get_bound_raises:
  "get_lb ext (snd (forget ext v self)) v = Inl TypeError
   \<and> get_ub ext (snd (forget ext v self)) v = Inl TypeError"
  by (simp add: get_lb_raises get_ub_raises)

section \<open>Binary lattice operations on octagons of unequal size\<close>

text \<open>
  \<open>_less_equal\<close>, \<open>_meet\<close> and \<open>_join\<close> compare the sizes of the two matrices first
  and raise \<open>ValueError\<close> when they differ.
\<close>

lemma guarded_operations_reject_unequal_sizes:
  "dsize (dbm self) \<noteq> dsize (dbm other) \<Longrightarrow>
   less_equal self other = Inl ValueError
   \<and> meet ext other self = (Inl ValueError, self)
   \<and> join ext (self, other) = (Inl ValueError, (self, other))"
  by (simp add: less_equal_def meet_def join_def)

text \<open>
  \<open>_widening\<close> does not compare the sizes: on operands of unequal size it raises exactly
  when \<open>zip\<close> of the matrix does, with the same exception.
\<close>

lemma widening_unequal_sizes_as_zip:
  "dsize (dbm self) \<noteq> dsize (dbm other) \<Longrightarrow>
   fst (widening ext other self)
     = (case dbm_zip_unequal ext (dbm self) (dbm other) widen_entry of
          Inl e \<Rightarrow> Inl e | Inr d \<Rightarrow> Inr ())"
  by (simp add: widening_def dbm_zip_def split: sum.splits)

section \<open>Assignments\<close>

lemma set_interval_raises: "set_interval ext var a self = (Inl TypeError, self)"
  by (cases a) (simp_all add: set_interval_def sbind_def sraise_def)

text \<open>
  C5 (\<open>assign(x, [0, 10])\<close>, then \<open>get_lb(x) == 0\<close> and \<open>get_ub(x) == 10\<close>). The code
  does not deliver it: after any assignment to \<open>x\<close> the two getters raise \<open>TypeError\<close>,
  and the step that should constrain \<open>x\<close> to the interval, \<open>set_interval\<close>, raises
  \<open>TypeError\<close> on every state and leaves it unchanged.
\<close>

theorem assign_interval_then_get_bound_raises:
  "get_lb ext (snd (assign_variable ext (Var v) e self)) v = Inl TypeError
   \<and> get_ub ext (snd (assign_variable ext (Var v) e self)) v = Inl TypeError
   \<and> set_interval ext v (OfInterval iv) self' = (Inl TypeError, self')"
  by (simp add: get_lb_raises get_ub_raises set_interval_raises)

text \<open>
  C6 (\<open>assign(x, [0, 10])\<close>, \<open>assign(x, x + [1, 1])\<close>, then \<open>get_lb(x) == 1\<close> and
  \<open>get_ub(x) == 11\<close>). The code does not deliver it: the assignment \<open>x = x + 1\<close>, with
  the literal known to the interval evaluator as \<open>[1, 1]\<close>, raises \<open>TypeError\<close> on the
  octagon over \<open>[x]\<close> and leaves it unchanged, and after any two assignments to \<open>x\<close> the
  getters raise \<open>TypeError\<close>.
\<close>

theorem additive_assign_raises:
  "assign_variable (sample_externals \<lparr>lower = Fin 1, upper = Fin 1\<rparr>) (Var x)
       (BinaryArithmeticOperation Int_t (Var x) Add (Literal Int_t ''1'')) octagon_x
     = (Inl TypeError, octagon_x)
   \<and> get_lb ext (snd (assign_variable ext (Var v)
         (BinaryArithmeticOperation t (Var v) Add e2)
         (snd (assign_variable ext (Var v) e1 self)))) v = Inl TypeError
   \<and> get_ub ext (snd (assign_variable ext (Var v)
         (BinaryArithmeticOperation t (Var v) Add e2)
         (snd (assign_variable ext (Var v) e1 self)))) v = Inl TypeError"
  by (simp add: get_lb_raises get_ub_raises assign_variable_def assign_body_def
        except_ValueError_def sbind_def slift_def sreturn_def sraise_def rbind_def
        SingleVarLinearForm_def visit_BinaryArithmeticOperation_def set_var_def
        set_form_interval_def set_var_sign_def sample_externals_def x_def)

text \<open>
  C10: when the extraction of the linear form from the right-hand side fails with a
  matching error (\<open>ValueError\<close>), the assignment to an integer variable returns normally
  and the octagon is the one it was called on.
\<close>

theorem assign_extraction_failure_unchanged:
  "SingleVarLinearForm ext right = Inl ValueError \<Longrightarrow> var_typ v = Int_t \<Longrightarrow>
   assign_variable ext (Var v) right self = (Inr (), self)"
  by (simp add: assign_variable_def assign_body_def except_ValueError_def sbind_def
        slift_def sreturn_def)

theorem assign_extraction_failure_unchanged_witness:
  "SingleVarLinearForm (sample_externals interval_top) (OtherExpression ''ListDisplay'')
     = Inl ValueError
   \<and> var_typ x = Int_t
   \<and> assign_variable (sample_externals interval_top) (Var x)
       (OtherExpression ''ListDisplay'') octagon_x = (Inr (), octagon_x)"
proof -
  have f: "SingleVarLinearForm (sample_externals interval_top)
             (OtherExpression ''ListDisplay'') = Inl ValueError"
    by (simp add: SingleVarLinearForm_def generic_visit_def sraise_def)
  have t: "var_typ x = Int_t" by (simp add: x_def)
  show ?thesis
    using f t assign_extraction_failure_unchanged [OF f t, of octagon_x] by simp
qed

section \<open>The order of the lattice\<close>

lemma ble_antisym: "ble a b \<Longrightarrow> ble b a \<Longrightarrow> a = b"
  by (cases a; cases b) auto

lemma list_all_zip_map:
  "list_all (\<lambda>(u, w). P u w) (zip (map f ks) (map g ks)) = (\<forall>k \<in> set ks. P (f k) (g k))"
  by (induction ks) auto

lemma less_equal_entries:
  "less_equal a b = Inr True \<Longrightarrow>
   dsize (dbm a) = dsize (dbm b)
   \<and> (\<forall>i < dsize (dbm a). \<forall>j < dsize (dbm a). ble (cells (dbm a) i j) (cells (dbm b) i j))"
  by (auto simp: less_equal_def dbm_values_def dbm_keys_def list_all_zip_map
        split: if_splits)

text \<open>
  C7 (antisymmetry): when \<open>A.less_equal(B)\<close> and \<open>B.less_equal(A)\<close> both return true,
  the two matrices have the same size and the same bound at every position, and
  \<open>values()\<close> gives the same list on both.
\<close>

theorem less_equal_antisymmetric:
  assumes "less_equal a b = Inr True" and "less_equal b a = Inr True"
  shows "dsize (dbm a) = dsize (dbm b)
         \<and> (\<forall>i < dsize (dbm a). \<forall>j < dsize (dbm a). cells (dbm a) i j = cells (dbm b) i j)
         \<and> dbm_values (dbm a) = dbm_values (dbm b)"
proof -
  from less_equal_entries [OF assms(1)] less_equal_entries [OF assms(2)]
  have sz: "dsize (dbm a) = dsize (dbm b)"
    and eq: "\<forall>i < dsize (dbm a). \<forall>j < dsize (dbm a). cells (dbm a) i j = cells (dbm b) i j"
    by (auto intro: ble_antisym)
  from sz eq have "dbm_values (dbm a) = dbm_values (dbm b)"
    by (auto simp: dbm_values_def dbm_keys_def)
  with sz eq show ?thesis by simp
qed

theorem less_equal_antisymmetric_witness:
  "less_equal octagon_x (snd (top_op octagon_x0)) = Inr True
   \<and> less_equal (snd (top_op octagon_x0)) octagon_x = Inr True
   \<and> dsize (dbm octagon_x) = dsize (dbm (snd (top_op octagon_x0)))
   \<and> cells (dbm octagon_x) 0 1 = cells (dbm (snd (top_op octagon_x0))) 0 1
   \<and> cells (dbm octagon_x) 1 0 = cells (dbm (snd (top_op octagon_x0))) 1 0
   \<and> dbm_values (dbm octagon_x) = dbm_values (dbm (snd (top_op octagon_x0)))"
proof -
  have h1: "less_equal octagon_x (snd (top_op octagon_x0)) = Inr True" by code_simp
  have h2: "less_equal (snd (top_op octagon_x0)) octagon_x = Inr True" by code_simp
  have sz: "dsize (dbm octagon_x) = 2" by (simp add: octagon_x_def OctagonLattice_dsize)
  show ?thesis using h1 h2 sz less_equal_antisymmetric [OF h1 h2] by simp
qed

section \<open>Termination of widening\<close>

lemma ble_trans: "ble a b \<Longrightarrow> ble b c \<Longrightarrow> ble a c"
  by (cases a; cases b; cases c) auto

lemma widening_equal_size:
  "dsize (dbm other) = dsize (dbm self) \<Longrightarrow>
   widening ext other self = (Inr (), widened other self)"
  by (simp add: widening_def dbm_zip_def widened_def)

lemma widened_dsize: "dsize (dbm (widened other self)) = dsize (dbm self)"
  by (simp add: widened_def)

lemma widened_cell:
  "i < dsize (dbm self) \<Longrightarrow> j < dsize (dbm self) \<Longrightarrow>
   cells (dbm (widened other self)) i j = widen_entry (cells (dbm self) i j) (cells (dbm other) i j)"
  by (simp add: widened_def)

lemma widened_same:
  assumes "\<forall>i < dsize (dbm self). \<forall>j < dsize (dbm self).
             widen_entry (cells (dbm self) i j) (cells (dbm other) i j) = cells (dbm self) i j"
  shows "widened other self = self"
proof -
  have "(\<lambda>i j. if i < dsize (dbm self) \<and> j < dsize (dbm self)
               then widen_entry (cells (dbm self) i j) (cells (dbm other) i j)
               else cells (dbm self) i j) = cells (dbm self)"
    using assms by (intro ext) simp
  then show ?thesis by (simp add: widened_def)
qed

lemma finite_positions_bound:
  "finite (finite_positions d) \<and> card (finite_positions d) \<le> dsize d * dsize d"
proof -
  have sub: "finite_positions d \<subseteq> {..<dsize d} \<times> {..<dsize d}"
    by (auto simp: finite_positions_def)
  have fin: "finite ({..<dsize d} \<times> {..<dsize d})" by simp
  from sub fin have "finite (finite_positions d)" by (rule finite_subset)
  moreover from card_mono [OF fin sub] have "card (finite_positions d) \<le> dsize d * dsize d"
    by (simp add: card_cartesian_product)
  ultimately show ?thesis by simp
qed

lemma widened_positions:
  "finite_positions (dbm (widened other self)) \<subseteq> finite_positions (dbm self)"
  by (auto simp: finite_positions_def widened_def widen_entry_def split: if_splits)

lemma widened_positions_strict:
  assumes "widened other self \<noteq> self"
  shows "finite_positions (dbm (widened other self)) \<subset> finite_positions (dbm self)"
proof -
  from assms widened_same obtain i j where ij: "i < dsize (dbm self)" "j < dsize (dbm self)"
    and ne: "widen_entry (cells (dbm self) i j) (cells (dbm other) i j) \<noteq> cells (dbm self) i j"
    by blast
  from ne have a: "cells (dbm self) i j \<noteq> PInf"
    and b: "widen_entry (cells (dbm self) i j) (cells (dbm other) i j) = PInf"
    by (auto simp: widen_entry_def split: if_splits)
  from ij a have "(i, j) \<in> finite_positions (dbm self)" by (simp add: finite_positions_def)
  moreover from ij b have "(i, j) \<notin> finite_positions (dbm (widened other self))"
    by (simp add: finite_positions_def widened_def)
  ultimately show ?thesis using widened_positions [of other self] by blast
qed

lemma iterate_widening_returns:
  assumes "\<forall>k. dsize (dbm (others k)) = dsize (dbm a)"
  shows "\<exists>s. iterate_widening ext a others n = Inr s \<and> dsize (dbm s) = dsize (dbm a)"
proof (induction n)
  case 0
  show ?case by simp
next
  case (Suc n)
  then obtain s where s: "iterate_widening ext a others n = Inr s" "dsize (dbm s) = dsize (dbm a)"
    by blast
  with assms have "dsize (dbm (others n)) = dsize (dbm s)" by simp
  from widening_equal_size [OF this] s show ?case
    by (simp add: rbind_def widened_dsize)
qed

lemma iterate_widening_Suc:
  assumes "\<forall>k. dsize (dbm (others k)) = dsize (dbm a)"
    and "iterate_widening ext a others n = Inr s"
  shows "iterate_widening ext a others (Suc n) = Inr (widened (others n) s)"
proof -
  from iterate_widening_returns [OF assms(1), where n = n and ext = ext] assms(2)
  have "dsize (dbm s) = dsize (dbm a)" by auto
  with assms(1) have "dsize (dbm (others n)) = dsize (dbm s)" by simp
  from widening_equal_size [OF this] assms(2) show ?thesis by (simp add: rbind_def)
qed

lemma widening_chain:
  assumes sizes: "\<forall>k. dsize (dbm (others k)) = dsize (dbm a)"
    and changes: "\<forall>k < n. iterate_widening ext a others (Suc k) \<noteq> iterate_widening ext a others k"
  shows "\<exists>s. iterate_widening ext a others n = Inr s
             \<and> n + card (finite_positions (dbm s)) \<le> card (finite_positions (dbm a))"
  using changes
proof (induction n)
  case 0
  show ?case by simp
next
  case (Suc n)
  then obtain s where s: "iterate_widening ext a others n = Inr s"
    and le: "n + card (finite_positions (dbm s)) \<le> card (finite_positions (dbm a))"
    by auto
  have step: "iterate_widening ext a others (Suc n) = Inr (widened (others n) s)"
    by (rule iterate_widening_Suc [OF sizes s])
  from Suc.prems s step have "widened (others n) s \<noteq> s" by auto
  from widened_positions_strict [OF this] finite_positions_bound [of "dbm s"]
  have "card (finite_positions (dbm (widened (others n) s))) < card (finite_positions (dbm s))"
    by (simp add: psubset_card_mono)
  with le step show ?case by simp
qed

lemma widening_stable_step:
  assumes sizes: "\<forall>k. dsize (dbm (others k)) = dsize (dbm a)"
  shows "\<exists>k \<le> dsize (dbm a) * dsize (dbm a).
           iterate_widening ext a others (Suc k) = iterate_widening ext a others k"
proof (rule ccontr)
  assume "\<not> ?thesis"
  then have "\<forall>k < Suc (dsize (dbm a) * dsize (dbm a)).
               iterate_widening ext a others (Suc k) \<noteq> iterate_widening ext a others k"
    by auto
  from widening_chain [OF sizes this] finite_positions_bound [of "dbm a"]
  show False by auto
qed

lemma widen_entry_kept:
  "a = PInf \<or> bge a b \<Longrightarrow> widen_entry a b = a"
  by (auto simp: widen_entry_def)

lemma widened_twice:
  assumes sz: "dsize (dbm o1) = dsize (dbm s)" "dsize (dbm o2) = dsize (dbm s)"
    and tight: "\<forall>i < dsize (dbm s). \<forall>j < dsize (dbm s). ble (cells (dbm o2) i j) (cells (dbm o1) i j)"
  shows "widened o2 (widened o1 s) = widened o1 s"
proof (rule widened_same, intro allI impI)
  fix i j
  assume "i < dsize (dbm (widened o1 s))" "j < dsize (dbm (widened o1 s))"
  then have ij: "i < dsize (dbm s)" "j < dsize (dbm s)" by (simp_all add: widened_dsize)
  from tight ij have t: "ble (cells (dbm o2) i j) (cells (dbm o1) i j)" by simp
  have "cells (dbm (widened o1 s)) i j = PInf
        \<or> bge (cells (dbm (widened o1 s)) i j) (cells (dbm o2) i j)"
    using t by (auto simp: widened_cell [OF ij] widen_entry_def bge_def intro: ble_trans)
  then show "widen_entry (cells (dbm (widened o1 s)) i j) (cells (dbm o2) i j)
             = cells (dbm (widened o1 s)) i j"
    by (rule widen_entry_kept)
qed

lemma tightening_fixed:
  assumes sizes: "\<forall>k. dsize (dbm (others k)) = dsize (dbm a)"
    and tight: "\<forall>k. \<forall>i < dsize (dbm a). \<forall>j < dsize (dbm a).
                 ble (cells (dbm (others (Suc k))) i j) (cells (dbm (others k)) i j)"
  shows "iterate_widening ext a others (Suc (Suc n)) = iterate_widening ext a others (Suc n)"
proof -
  obtain s where s: "iterate_widening ext a others n = Inr s" "dsize (dbm s) = dsize (dbm a)"
    using iterate_widening_returns [OF sizes] by blast
  have s1: "iterate_widening ext a others (Suc n) = Inr (widened (others n) s)"
    by (rule iterate_widening_Suc [OF sizes s(1)])
  have s2: "iterate_widening ext a others (Suc (Suc n))
            = Inr (widened (others (Suc n)) (widened (others n) s))"
    by (rule iterate_widening_Suc [OF sizes s1])
  have "widened (others (Suc n)) (widened (others n) s) = widened (others n) s"
    using sizes tight s(2) by (intro widened_twice) simp_all
  with s1 s2 show ?thesis by simp
qed

lemma tightening_fixed_from_one:
  assumes sizes: "\<forall>k. dsize (dbm (others k)) = dsize (dbm a)"
    and tight: "\<forall>k. \<forall>i < dsize (dbm a). \<forall>j < dsize (dbm a).
                 ble (cells (dbm (others (Suc k))) i j) (cells (dbm (others k)) i j)"
  shows "iterate_widening ext a others (Suc n) = iterate_widening ext a others (Suc 0)"
proof (induction n)
  case 0
  show ?case by simp
next
  case (Suc n)
  with tightening_fixed [OF sizes tight, where n = n and ext = ext] show ?case by simp
qed

lemma empty_octagon_fixed:
  assumes sizes: "\<forall>k. dsize (dbm (others k)) = dsize (dbm a)" and z: "dsize (dbm a) = 0"
  shows "iterate_widening ext a others n = Inr a"
proof (induction n)
  case 0
  show ?case by simp
next
  case (Suc n)
  have "widened (others n) a = a" using z by (intro widened_same) simp
  with iterate_widening_Suc [OF sizes Suc] show ?case by simp
qed

lemma widening_round:
  assumes sizes: "\<forall>k. dsize (dbm (others k)) = dsize (dbm a)"
  shows "\<exists>s s'. iterate_widening ext a others n = Inr s
           \<and> widening ext (others n) s = (Inr (), s')
           \<and> iterate_widening ext a others (Suc n) = Inr s'
           \<and> dsize (dbm s') = dsize (dbm a)
           \<and> (\<forall>i < dsize (dbm a). \<forall>j < dsize (dbm a).
                cells (dbm s') i j
                  = (if ble (cells (dbm (others n)) i j) (cells (dbm s) i j)
                     then cells (dbm s) i j else PInf)
                \<and> (cells (dbm s) i j = PInf \<longrightarrow> cells (dbm s') i j = PInf))"
proof -
  obtain s where s: "iterate_widening ext a others n = Inr s" "dsize (dbm s) = dsize (dbm a)"
    using iterate_widening_returns [OF sizes] by blast
  from sizes s(2) have eq: "dsize (dbm (others n)) = dsize (dbm s)" by simp
  have w: "widening ext (others n) s = (Inr (), widened (others n) s)"
    by (rule widening_equal_size [OF eq])
  have step: "iterate_widening ext a others (Suc n) = Inr (widened (others n) s)"
    by (rule iterate_widening_Suc [OF sizes s(1)])
  have cell: "\<forall>i < dsize (dbm a). \<forall>j < dsize (dbm a).
                cells (dbm (widened (others n) s)) i j
                  = (if ble (cells (dbm (others n)) i j) (cells (dbm s) i j)
                     then cells (dbm s) i j else PInf)
                \<and> (cells (dbm s) i j = PInf
                     \<longrightarrow> cells (dbm (widened (others n) s)) i j = PInf)"
    using s(2) by (simp add: widened_def widen_entry_def bge_def)
  from s(1) w step cell s(2) show ?thesis by (simp add: widened_dsize)
qed

text \<open>
  C8 (widening terminates). Iterating \<open>_widening\<close> from an octagon of size \<open>2N\<close> with
  any sequence of octagons of that size, every round returns normally and leaves at each
  position the bound it found there when that bound is at least the bound of the other
  octagon, and \<open>inf\<close> otherwise, so that \<open>inf\<close> stays \<open>inf\<close>. One of the first
  \<open>(2N)\<^sup>2 + 1\<close> rounds leaves the octagon as it is. When the sequence is tightening (each
  octagon is entrywise below its predecessor, strictly or not), the iteration reaches
  within \<open>(2N)\<^sup>2\<close> rounds an octagon that every later round returns unchanged.
\<close>

theorem widening_converges:
  assumes sizes: "\<forall>k. dsize (dbm (others k)) = dsize (dbm a)"
  shows "(\<forall>n. \<exists>s s'. iterate_widening ext a others n = Inr s
            \<and> widening ext (others n) s = (Inr (), s')
            \<and> iterate_widening ext a others (Suc n) = Inr s'
            \<and> dsize (dbm s') = dsize (dbm a)
            \<and> (\<forall>i < dsize (dbm a). \<forall>j < dsize (dbm a).
                 cells (dbm s') i j
                   = (if ble (cells (dbm (others n)) i j) (cells (dbm s) i j)
                      then cells (dbm s) i j else PInf)
                 \<and> (cells (dbm s) i j = PInf \<longrightarrow> cells (dbm s') i j = PInf)))
         \<and> (\<exists>k \<le> (dsize (dbm a))\<^sup>2.
              iterate_widening ext a others (Suc k) = iterate_widening ext a others k)
         \<and> ((\<forall>k. \<forall>i < dsize (dbm a). \<forall>j < dsize (dbm a).
                ble (cells (dbm (others (Suc k))) i j) (cells (dbm (others k)) i j))
            \<longrightarrow> (\<exists>k \<le> (dsize (dbm a))\<^sup>2. \<exists>s. \<forall>m \<ge> k.
                   iterate_widening ext a others m = Inr s))"
proof (intro conjI impI allI)
  fix n
  show "\<exists>s s'. iterate_widening ext a others n = Inr s
          \<and> widening ext (others n) s = (Inr (), s')
          \<and> iterate_widening ext a others (Suc n) = Inr s'
          \<and> dsize (dbm s') = dsize (dbm a)
          \<and> (\<forall>i < dsize (dbm a). \<forall>j < dsize (dbm a).
               cells (dbm s') i j
                 = (if ble (cells (dbm (others n)) i j) (cells (dbm s) i j)
                    then cells (dbm s) i j else PInf)
               \<and> (cells (dbm s) i j = PInf \<longrightarrow> cells (dbm s') i j = PInf))"
    by (rule widening_round [OF sizes])
next
  show "\<exists>k \<le> (dsize (dbm a))\<^sup>2.
          iterate_widening ext a others (Suc k) = iterate_widening ext a others k"
    using widening_stable_step [OF sizes] by (simp add: power2_eq_square)
next
  assume tight: "\<forall>k. \<forall>i < dsize (dbm a). \<forall>j < dsize (dbm a).
                   ble (cells (dbm (others (Suc k))) i j) (cells (dbm (others k)) i j)"
  show "\<exists>k \<le> (dsize (dbm a))\<^sup>2. \<exists>s. \<forall>m \<ge> k. iterate_widening ext a others m = Inr s"
  proof (cases "dsize (dbm a) = 0")
    case True
    from empty_octagon_fixed [OF sizes True]
    have "\<forall>m \<ge> 0. iterate_widening ext a others m = Inr a"
      by simp
    then show ?thesis by blast
  next
    case False
    then have one: "Suc 0 \<le> (dsize (dbm a))\<^sup>2" by (simp add: power2_eq_square)
    obtain s where s: "iterate_widening ext a others (Suc 0) = Inr s"
      using iterate_widening_returns [OF sizes] by blast
    have "\<forall>m \<ge> Suc 0. iterate_widening ext a others m = Inr s"
    proof (intro allI impI)
      fix m :: nat
      assume "Suc 0 \<le> m"
      then obtain n where "m = Suc n" by (cases m) auto
      with tightening_fixed_from_one [OF sizes tight, where n = n and ext = ext] s
      show "iterate_widening ext a others m = Inr s" by simp
    qed
    with one show ?thesis by blast
  qed
qed

theorem widening_converges_witness:
  "(\<forall>k. dsize (dbm (tightening_octagons k)) = dsize (dbm octagon_low))
   \<and> cells (dbm octagon_low) 0 1 = Fin (- 1)
   \<and> cells (dbm (tightening_octagons 0)) 0 1 = Fin 0
   \<and> (\<exists>s. iterate_widening (sample_externals interval_top) octagon_low
              tightening_octagons (Suc 0) = Inr s
            \<and> cells (dbm s) 0 1 = PInf)
   \<and> (\<exists>k \<le> (dsize (dbm octagon_low))\<^sup>2.
         iterate_widening (sample_externals interval_top) octagon_low tightening_octagons (Suc k)
         = iterate_widening (sample_externals interval_top) octagon_low tightening_octagons k)
   \<and> (\<exists>k \<le> (dsize (dbm octagon_low))\<^sup>2. \<exists>s. \<forall>m \<ge> k.
         iterate_widening (sample_externals interval_top) octagon_low tightening_octagons m
         = Inr s)"
proof -
  have h1: "\<forall>k. dsize (dbm (tightening_octagons k)) = dsize (dbm octagon_low)"
    by (simp add: tightening_octagons_def octagon_low_def OctagonLattice_dsize)
  have h2: "\<forall>k. \<forall>i < dsize (dbm octagon_low). \<forall>j < dsize (dbm octagon_low).
              ble (cells (dbm (tightening_octagons (Suc k))) i j)
                  (cells (dbm (tightening_octagons k)) i j)"
    by (simp add: tightening_octagons_def OctagonLattice_def IntegerCDBM_def Let_def)
  have sz: "dsize (dbm octagon_low) = 2"
    by (simp add: octagon_low_def OctagonLattice_dsize)
  have c0: "cells (dbm octagon_low) 0 1 = Fin (- 1)"
    by (simp add: octagon_low_def all_minus_one_def OctagonLattice_def IntegerCDBM_def Let_def)
  have o0: "cells (dbm (tightening_octagons 0)) 0 1 = Fin 0"
    by (simp add: tightening_octagons_def OctagonLattice_def IntegerCDBM_def Let_def)
  note conv = widening_converges [OF h1, where ext = "sample_externals interval_top"]
  from conv obtain s s' where
    r0: "iterate_widening (sample_externals interval_top) octagon_low tightening_octagons 0
           = Inr s"
    and r1: "iterate_widening (sample_externals interval_top) octagon_low tightening_octagons
               (Suc 0) = Inr s'"
    and cell: "\<forall>i < dsize (dbm octagon_low). \<forall>j < dsize (dbm octagon_low).
                 cells (dbm s') i j
                   = (if ble (cells (dbm (tightening_octagons 0)) i j) (cells (dbm s) i j)
                      then cells (dbm s) i j else PInf)"
    by blast
  from r0 have s: "s = octagon_low" by simp
  from cell sz s c0 o0 have "cells (dbm s') 0 1 = PInf" by simp
  with r1 have first: "\<exists>s. iterate_widening (sample_externals interval_top) octagon_low
                              tightening_octagons (Suc 0) = Inr s
                            \<and> cells (dbm s) 0 1 = PInf"
    by blast
  from conv h2 have rest:
    "(\<exists>k \<le> (dsize (dbm octagon_low))\<^sup>2.
         iterate_widening (sample_externals interval_top) octagon_low tightening_octagons (Suc k)
         = iterate_widening (sample_externals interval_top) octagon_low tightening_octagons k)
     \<and> (\<exists>k \<le> (dsize (dbm octagon_low))\<^sup>2. \<exists>s. \<forall>m \<ge> k.
         iterate_widening (sample_externals interval_top) octagon_low tightening_octagons m
         = Inr s)"
    by blast
  from h1 c0 o0 first rest show ?thesis by blast
qed

end
